theory Spec2Isabelle
  imports Main "HOL-Library.Word"
begin

section \<open>Go runtime values shared by both source files\<close>

text \<open>
  A Go call either returns or ends abnormally.  \<open>Panic\<close> is a run-time panic (it ends the
  process unless recovered; nothing in the repository recovers), \<open>BlocksForever\<close> is a
  goroutine parked on a nil channel.  A returned Go \<open>error\<close> is its message, \<open>None\<close>
  being \<open>nil\<close>.
\<close>

datatype fault = Panic string | BlocksForever

type_synonym error = string
type_synonym chan = nat
type_synonym handle = nat
type_synonym bytes = "8 word list"

text \<open>
  Channels are references: a channel value is an index into the list of all channels made
  so far, \<open>None\<close> is the nil channel.  Each channel has the capacity it was made with and
  a closed flag.
\<close>

record chan_state =
  chan_cap :: nat
  chan_closed :: bool

type_synonym chan_heap = "chan_state list"

definition make_chan :: "nat \<Rightarrow> chan_heap \<Rightarrow> chan \<times> chan_heap" where
  "make_chan n h = (length h, h @ [\<lparr>chan_cap = n, chan_closed = False\<rparr>])"

text \<open>
  \<open>make(chan T, n)\<close> with a size the runtime cannot allocate panics.  The limit depends
  on the platform and is a parameter.
\<close>

definition make_chan_sized :: "nat \<Rightarrow> nat \<Rightarrow> chan_heap \<Rightarrow> fault + chan \<times> chan_heap" where
  "make_chan_sized limit n h =
     (if limit < n then Inl (Panic ''makechan: size out of range'')
      else Inr (make_chan n h))"

text \<open>
  \<open>close(c)\<close>: closing the nil channel panics, closing a closed channel panics.  An index
  outside the list is no Go value; the branch is there to keep the function total.
\<close>

definition close_chan :: "chan option \<Rightarrow> chan_heap \<Rightarrow> fault + chan_heap" where
  "close_chan c h =
     (case c of
        None \<Rightarrow> Inl (Panic ''close of nil channel'')
      | Some ch \<Rightarrow>
          if length h \<le> ch then Inl (Panic ''dangling channel'')
          else if chan_closed (h ! ch) then Inl (Panic ''close of closed channel'')
          else Inr (h[ch := (h ! ch)\<lparr>chan_closed := True\<rparr>]))"

text \<open>
  \<open>c <- v\<close> as seen by the sender whose receiver is taking values: a send on the nil
  channel blocks forever, a send on a closed channel panics, any other send hands \<open>v\<close>
  over to the channel returned here.
\<close>

definition send_chan :: "chan option \<Rightarrow> chan_heap \<Rightarrow> fault + chan" where
  "send_chan c h =
     (case c of
        None \<Rightarrow> Inl BlocksForever
      | Some ch \<Rightarrow>
          if length h \<le> ch then Inl (Panic ''dangling channel'')
          else if chan_closed (h ! ch) then Inl (Panic ''send on closed channel'')
          else Inr ch)"

text \<open>\<open>strings.Split(s, ",")\<close>: one piece more than there are commas.\<close>

fun Split_comma :: "string \<Rightarrow> string list" where
  "Split_comma [] = [[]]"
| "Split_comma (c # cs) =
     (if c = CHR '','' then [] # Split_comma cs
      else (case Split_comma cs of
              [] \<Rightarrow> [[c]]
            | p # ps \<Rightarrow> (c # p) # ps))"

section \<open>The Connector\<close>

text \<open>
  The struct \<open>Connector\<close>, field by field.  \<open>consumer\<close> and \<open>producer\<close> are nil-able
  references to sessions of the wrapped client library, \<open>channelLength\<close> is a Go \<open>uint\<close>.
\<close>

record Connector =
  user :: string
  pass :: string
  consumer :: "handle option"
  producer :: "handle option"
  consumerChannel :: "chan option"
  producerChannel :: "chan option"
  manualErrFlag :: bool
  manualErrSignal :: "chan option"
  channelLength :: "64 word"

text \<open>The configuration records that the Start methods fill in and hand to the library.\<close>

record ConsConfig =
  Net_TLS_Enable :: bool
  Net_SASL_Enable :: bool
  Net_SASL_User :: string
  Net_SASL_Password :: string
  Consumer_Return_Errors :: bool
  Group_Return_Notifications :: bool
  Consumer_Offsets_Initial :: "64 word"

record ProdConfig =
  Producer_Return_Successes :: bool
  Producer_Return_Errors :: bool

text \<open>
  What the connector does to the outside is recorded in the order it happens: the calls
  into the library, the goroutines started with \<open>go\<close>, the lines written with \<open>log\<close>.
  The two logger goroutines are closures over the connector itself.
\<close>

datatype libcall =
    NewConsumer "string list" string "string list" ConsConfig
  | NewAsyncProducer "string list" ProdConfig
  | SessionClose handle

datatype goroutine =
    decodeMessages handle chan
  | encodeMessages handle string chan
  | ConsumerLogger
  | ProducerLogger

datatype session = Running | Closed

record world =
  connector :: Connector
  chans :: chan_heap
  sessions :: "session list"
  logged :: "string list"
  goroutines :: "goroutine list"
  libcalls :: "libcall list"
  environ :: "(string \<times> string) list"
  chan_limit :: nat

text \<open>A connector starts as the zero value of its struct.\<close>

definition zero_Connector :: Connector where
  "zero_Connector =
     \<lparr>user = [], pass = [], consumer = None, producer = None,
      consumerChannel = None, producerChannel = None,
      manualErrFlag = False, manualErrSignal = None, channelLength = 0\<rparr>"

definition new_world :: "(string \<times> string) list \<Rightarrow> nat \<Rightarrow> world" where
  "new_world env limit =
     \<lparr>connector = zero_Connector, chans = [], sessions = [], logged = [],
      goroutines = [], libcalls = [], environ = env, chan_limit = limit\<rparr>"

definition log_line :: "string \<Rightarrow> world \<Rightarrow> world" where
  "log_line l w = w\<lparr>logged := logged w @ [l]\<rparr>"

definition go :: "goroutine \<Rightarrow> world \<Rightarrow> world" where
  "go g w = w\<lparr>goroutines := goroutines w @ [g]\<rparr>"

definition call_lib :: "libcall \<Rightarrow> world \<Rightarrow> world" where
  "call_lib c w = w\<lparr>libcalls := libcalls w @ [c]\<rparr>"

text \<open>\<open>os.Getenv\<close>: the value of the variable, the empty string when it is not set.\<close>

definition Getenv :: "world \<Rightarrow> string \<Rightarrow> string" where
  "Getenv w k = (case map_of (environ w) k of None \<Rightarrow> [] | Some v \<Rightarrow> v)"

definition SetAuth :: "string \<Rightarrow> string \<Rightarrow> world \<Rightarrow> world" where
  "SetAuth u p w = w\<lparr>connector := (connector w)\<lparr>user := u, pass := p\<rparr>\<rparr>"

definition SetAuthFromEnv :: "world \<Rightarrow> error option \<times> world" where
  "SetAuthFromEnv w =
     (let w1 = w\<lparr>connector := (connector w)\<lparr>user := Getenv w ''KAFKA_SASL_USER''\<rparr>\<rparr>;
          w2 = w1\<lparr>connector := (connector w1)\<lparr>pass := Getenv w1 ''KAFKA_SASL_PASS''\<rparr>\<rparr>
      in if user (connector w2) = [] \<or> pass (connector w2) = []
         then (Some ''Setting Kafka SASL info from Environment was unsuccessful.'', w2)
         else (None, w2))"

definition SetAuthAnon :: "world \<Rightarrow> world" where
  "SetAuthAnon w = w\<lparr>connector := (connector w)\<lparr>user := ''anon'', pass := ''anon''\<rparr>\<rparr>"

definition EnableManualErrorHandling :: "world \<Rightarrow> fault + world" where
  "EnableManualErrorHandling w =
     (let w1 = w\<lparr>connector := (connector w)\<lparr>manualErrFlag := True\<rparr>\<rparr>
      in if manualErrSignal (connector w1) \<noteq> None
         then (case close_chan (manualErrSignal (connector w1)) (chans w1) of
                 Inl f \<Rightarrow> Inl f
               | Inr h \<Rightarrow> Inr (w1\<lparr>chans := h\<rparr>))
         else Inr w1)"

definition SetChannelLength :: "64 word \<Rightarrow> world \<Rightarrow> world" where
  "SetChannelLength l w = w\<lparr>connector := (connector w)\<lparr>channelLength := l\<rparr>\<rparr>"

text \<open>
  The first statement of both Start methods: the signal channel of the loggers is made
  once, and only while error handling is automatic.
\<close>

definition ensure_signal :: "world \<Rightarrow> world" where
  "ensure_signal w =
     (if \<not> manualErrFlag (connector w) \<and> manualErrSignal (connector w) = None
      then (case make_chan 0 (chans w) of
              (ch, h) \<Rightarrow> w\<lparr>connector := (connector w)\<lparr>manualErrSignal := Some ch\<rparr>, chans := h\<rparr>)
      else w)"

text \<open>
  The library call \<open>cluster.NewConsumer\<close> or \<open>sarama.NewAsyncProducer\<close>: the call is
  recorded; its outcome \<open>res\<close> is the library's (\<open>Some err\<close> when connecting or
  authenticating fails, and then the returned session is nil).  A new session is running.
\<close>

definition open_session :: "libcall \<Rightarrow> error option \<Rightarrow> world \<Rightarrow> (error + handle) \<times> world" where
  "open_session c res w =
     (case res of
        Some err \<Rightarrow> (Inl err, call_lib c w)
      | None \<Rightarrow> (Inr (length (sessions w)),
                 (call_lib c w)\<lparr>sessions := sessions w @ [Running]\<rparr>))"

text \<open>
  \<open>StartConsumer\<close>.  \<open>certErr\<close> is the error of \<open>x509.SystemCertPool\<close>, \<open>connErr\<close> the
  error of \<open>cluster.NewConsumer\<close>.
\<close>

definition consConf :: "Connector \<Rightarrow> 64 word \<Rightarrow> ConsConfig" where
  "consConf c offset =
     \<lparr>Net_TLS_Enable = True, Net_SASL_Enable = True,
      Net_SASL_User = user c, Net_SASL_Password = pass c,
      Consumer_Return_Errors = True, Group_Return_Notifications = True,
      Consumer_Offsets_Initial = offset\<rparr>"

definition StartConsumer ::
  "error option \<Rightarrow> error option \<Rightarrow> string \<Rightarrow> string list \<Rightarrow> string \<Rightarrow> 64 word \<Rightarrow> world
     \<Rightarrow> fault + error option \<times> world" where
  "StartConsumer certErr connErr broker topics consumergroup offset w =
     (let w1 = ensure_signal w;
          brokers = Split_comma broker
      in case certErr of
           Some err \<Rightarrow> Inr (Some err, log_line (''TLS Error: '' @ err) w1)
         | None \<Rightarrow>
             let conf = consConf (connector w1) offset;
                 w2 = log_line (''Trying to connect to Kafka as SASL/PLAIN user ''
                                @ [CHR 0x27] @ Net_SASL_User conf @ [CHR 0x27] @ ''...'') w1
             in case open_session (NewConsumer brokers consumergroup topics conf) connErr w2 of
                  (Inl err, w3) \<Rightarrow>
                    Inr (Some err, w3\<lparr>connector := (connector w3)\<lparr>consumer := None\<rparr>\<rparr>)
                | (Inr s, w3) \<Rightarrow>
                    let w4 = w3\<lparr>connector := (connector w3)\<lparr>consumer := Some s\<rparr>\<rparr>;
                        w5 = log_line ''Kafka TLS connection established.'' w4
                    in case make_chan_sized (chan_limit w5)
                              (unat (channelLength (connector w5))) (chans w5) of
                         Inl f \<Rightarrow> Inl f
                       | Inr (ch, h) \<Rightarrow>
                           let w6 = w5\<lparr>connector := (connector w5)\<lparr>consumerChannel := Some ch\<rparr>,
                                       chans := h\<rparr>;
                               w7 = go (decodeMessages s ch) w6
                           in if \<not> manualErrFlag (connector w7)
                              then Inr (None, go ConsumerLogger w7)
                              else Inr (None, w7))"

text \<open>
  \<open>StartProducer\<close>.  \<open>connErr\<close> is the error of \<open>sarama.NewAsyncProducer\<close>.
\<close>

definition prodConf :: ProdConfig where
  "prodConf = \<lparr>Producer_Return_Successes = False, Producer_Return_Errors = True\<rparr>"

definition StartProducer ::
  "error option \<Rightarrow> string \<Rightarrow> string \<Rightarrow> world \<Rightarrow> fault + error option \<times> world" where
  "StartProducer connErr broker topic w =
     (let w1 = ensure_signal w;
          brokers = Split_comma broker
      in case open_session (NewAsyncProducer brokers prodConf) connErr w1 of
           (Inl err, w2) \<Rightarrow>
             Inr (Some err, w2\<lparr>connector := (connector w2)\<lparr>producer := None\<rparr>\<rparr>)
         | (Inr s, w2) \<Rightarrow>
             let w3 = w2\<lparr>connector := (connector w2)\<lparr>producer := Some s\<rparr>\<rparr>
             in case make_chan_sized (chan_limit w3)
                       (unat (channelLength (connector w3))) (chans w3) of
                  Inl f \<Rightarrow> Inl f
                | Inr (ch, h) \<Rightarrow>
                    let w4 = w3\<lparr>connector := (connector w3)\<lparr>producerChannel := Some ch\<rparr>,
                                chans := h\<rparr>;
                        w5 = go (encodeMessages s topic ch) w4
                    in if \<not> manualErrFlag (connector w5)
                       then Inr (None, go ProducerLogger w5)
                       else Inr (None, w5))"

text \<open>
  A method call on a session reference: on nil it is a nil dereference.  The library's
  \<open>Close\<close> is recorded and ends the session.  The two libraries differ on a session
  that is already closed: \<open>cluster.Consumer.Close\<close> does its work once and returns on
  every later call; \<open>sarama.AsyncProducer.Close\<close> sends its shutdown message on the
  producer's input channel, which the first \<open>Close\<close> has closed, and the process dies.
\<close>

definition consumer_Close :: "handle option \<Rightarrow> world \<Rightarrow> fault + world" where
  "consumer_Close r w =
     (case r of
        None \<Rightarrow> Inl (Panic ''invalid memory address or nil pointer dereference'')
      | Some s \<Rightarrow> Inr ((call_lib (SessionClose s) w)\<lparr>sessions := (sessions w)[s := Closed]\<rparr>))"

definition producer_Close :: "handle option \<Rightarrow> world \<Rightarrow> fault + world" where
  "producer_Close r w =
     (case r of
        None \<Rightarrow> Inl (Panic ''invalid memory address or nil pointer dereference'')
      | Some s \<Rightarrow>
          if s < length (sessions w) \<and> sessions w ! s = Closed
          then Inl (Panic ''send on closed channel'')
          else Inr ((call_lib (SessionClose s) w)\<lparr>sessions := (sessions w)[s := Closed]\<rparr>))"

definition session_channel :: "handle option \<Rightarrow> fault + handle" where
  "session_channel r =
     (case r of
        None \<Rightarrow> Inl (Panic ''invalid memory address or nil pointer dereference'')
      | Some s \<Rightarrow> Inr s)"

definition Close :: "world \<Rightarrow> fault + world" where
  "Close w =
     (case (if consumer (connector w) \<noteq> None
            then (case consumer_Close (consumer (connector w)) w of
                    Inl f \<Rightarrow> Inl f
                  | Inr w1 \<Rightarrow> Inr (log_line ''Kafka Consumer connection closed.'' w1))
            else Inr w) of
        Inl f \<Rightarrow> Inl f
      | Inr w2 \<Rightarrow>
          if producer (connector w2) \<noteq> None
          then (case producer_Close (producer (connector w2)) w2 of
                  Inl f \<Rightarrow> Inl f
                | Inr w3 \<Rightarrow> Inr (log_line ''Kafka Producer connection closed.'' w3))
          else Inr w2)"

definition CloseConsumer :: "world \<Rightarrow> fault + world" where
  "CloseConsumer w =
     (if consumer (connector w) \<noteq> None
      then (case consumer_Close (consumer (connector w)) w of
              Inl f \<Rightarrow> Inl f
            | Inr w1 \<Rightarrow> Inr (log_line ''Kafka Consumer connection closed.'' w1))
      else Inr (log_line ''WARNING: CloseConsumer called, but no Consumer was initialized.'' w))"

definition CloseProducer :: "world \<Rightarrow> fault + world" where
  "CloseProducer w =
     (if producer (connector w) \<noteq> None
      then (case producer_Close (producer (connector w)) w of
              Inl f \<Rightarrow> Inl f
            | Inr w1 \<Rightarrow> Inr (log_line ''Kafka Producer connection closed.'' w1))
      else Inr (log_line ''WARNING: CloseProducer called, but no Producer was initialized.'' w))"

definition ConsumerChannel :: "world \<Rightarrow> chan option" where
  "ConsumerChannel w = consumerChannel (connector w)"

definition ProducerChannel :: "world \<Rightarrow> chan option" where
  "ProducerChannel w = producerChannel (connector w)"

definition ConsumerErrors :: "world \<Rightarrow> fault + handle" where
  "ConsumerErrors w = session_channel (consumer (connector w))"

definition ConsumerNotifications :: "world \<Rightarrow> fault + handle" where
  "ConsumerNotifications w = session_channel (consumer (connector w))"

definition ProducerErrors :: "world \<Rightarrow> fault + handle" where
  "ProducerErrors w = session_channel (producer (connector w))"

subsection \<open>Sequences of calls\<close>

text \<open>
  The exported methods of the connector as a datatype, each Start call with the outcomes
  of the library calls it makes.  \<open>exec\<close> is one call, \<open>run\<close> a sequence of calls that
  stops at the first panic.
\<close>

datatype call =
    CSetAuth string string
  | CSetAuthFromEnv
  | CSetAuthAnon
  | CEnableManualErrorHandling
  | CSetChannelLength "64 word"
  | CStartConsumer "error option" "error option" string "string list" string "64 word"
  | CStartProducer "error option" string string
  | CClose
  | CCloseConsumer
  | CCloseProducer
  | CConsumerChannel
  | CProducerChannel
  | CConsumerErrors
  | CConsumerNotifications
  | CProducerErrors

definition returned :: "fault + 'a \<times> world \<Rightarrow> fault + world" where
  "returned r = (case r of Inl f \<Rightarrow> Inl f | Inr (_, w) \<Rightarrow> Inr w)"

definition inspected :: "fault + 'a \<Rightarrow> world \<Rightarrow> fault + world" where
  "inspected r w = (case r of Inl f \<Rightarrow> Inl f | Inr _ \<Rightarrow> Inr w)"

fun exec :: "call \<Rightarrow> world \<Rightarrow> fault + world" where
  "exec (CSetAuth u p) w = Inr (SetAuth u p w)"
| "exec CSetAuthFromEnv w = Inr (snd (SetAuthFromEnv w))"
| "exec CSetAuthAnon w = Inr (SetAuthAnon w)"
| "exec CEnableManualErrorHandling w = EnableManualErrorHandling w"
| "exec (CSetChannelLength l) w = Inr (SetChannelLength l w)"
| "exec (CStartConsumer ce ne b ts g off) w = returned (StartConsumer ce ne b ts g off w)"
| "exec (CStartProducer ne b t) w = returned (StartProducer ne b t w)"
| "exec CClose w = Close w"
| "exec CCloseConsumer w = CloseConsumer w"
| "exec CCloseProducer w = CloseProducer w"
| "exec CConsumerChannel w = Inr w"
| "exec CProducerChannel w = Inr w"
| "exec CConsumerErrors w = inspected (ConsumerErrors w) w"
| "exec CConsumerNotifications w = inspected (ConsumerNotifications w) w"
| "exec CProducerErrors w = inspected (ProducerErrors w) w"

fun run :: "call list \<Rightarrow> world \<Rightarrow> fault + world" where
  "run [] w = Inr w"
| "run (c # cs) w = (case exec c w of Inl f \<Rightarrow> Inl f | Inr w' \<Rightarrow> run cs w')"

fun is_Start :: "call \<Rightarrow> bool" where
  "is_Start (CStartConsumer ce ne b ts g off) = True"
| "is_Start (CStartProducer ne b t) = True"
| "is_Start _ = False"

fun is_logger :: "goroutine \<Rightarrow> bool" where
  "is_logger ConsumerLogger = True"
| "is_logger ProducerLogger = True"
| "is_logger _ = False"

section \<open>The Consumer of consumer.go\<close>

record ConsumerMessage =
  Value :: bytes
  Topic :: string
  Partition :: "32 word"
  Offset :: "64 word"

text \<open>
  The struct \<open>Consumer\<close>: two nil-able channels and a nil-able cancel function.  The
  state around it holds the channels made so far and the cancel functions called.
\<close>

record Consumer =
  ready :: "chan option"
  flows :: "chan option"
  cancel :: "handle option"

record consumer_world =
  self :: Consumer
  cchans :: chan_heap
  cancelled :: "handle list"

definition Setup :: "consumer_world \<Rightarrow> fault + error option \<times> consumer_world" where
  "Setup cw =
     (case make_chan 0 (cchans cw) of
        (ch, h1) \<Rightarrow>
          let c1 = (self cw)\<lparr>flows := Some ch\<rparr>
          in case close_chan (ready c1) h1 of
               Inl f \<Rightarrow> Inl f
             | Inr h2 \<Rightarrow> Inr (None, cw\<lparr>self := c1, cchans := h2\<rparr>))"

definition Cleanup :: "consumer_world \<Rightarrow> fault + error option \<times> consumer_world" where
  "Cleanup cw = Inr (None, cw)"

definition Consumer_Close :: "consumer_world \<Rightarrow> fault + consumer_world" where
  "Consumer_Close cw =
     (case cancel (self cw) of
        None \<Rightarrow> Inl (Panic ''invalid memory address or nil pointer dereference'')
      | Some k \<Rightarrow> Inr (cw\<lparr>cancelled := cancelled cw @ [k]\<rparr>))"

text \<open>
  \<open>ConsumeClaim\<close> ranges over the messages of the claim until that channel is closed:
  \<open>ms\<close> are the messages it delivers.  What the loop does to the outside is recorded in
  order: \<open>session.MarkMessage\<close>, \<open>proto.Unmarshal\<close> on the payload, \<open>log.Printf\<close>
  and the values handed to the \<open>flows\<close> channel.  The decoder \<open>unmarshal\<close>
  (\<open>proto.Unmarshal\<close> into a new \<open>FlowMessage\<close>) is a parameter.  The result is the
  events in order, with \<open>None\<close> when the method returns (it returns nil) or the fault at
  which the loop stopped.
\<close>

datatype 'f event =
    MarkMessage ConsumerMessage
  | Unmarshal bytes
  | LogPrintf string
  | Sent chan 'f

definition after :: "'f event list \<Rightarrow> fault option \<times> 'f event list \<Rightarrow> fault option \<times> 'f event list" where
  "after es r = (fst r, es @ snd r)"

fun ConsumeClaim ::
  "(bytes \<Rightarrow> error + 'f) \<Rightarrow> consumer_world \<Rightarrow> ConsumerMessage list
     \<Rightarrow> fault option \<times> 'f event list" where
  "ConsumeClaim unmarshal cw [] = (None, [])"
| "ConsumeClaim unmarshal cw (message # ms) =
     (case unmarshal (Value message) of
        Inl err \<Rightarrow>
          after [MarkMessage message, Unmarshal (Value message),
                 LogPrintf (''decodeMessages: Received broken message: '' @ err)]
            (ConsumeClaim unmarshal cw ms)
      | Inr flowMsg \<Rightarrow>
          (case send_chan (flows (self cw)) (cchans cw) of
             Inl f \<Rightarrow> (Some f, [MarkMessage message, Unmarshal (Value message)])
           | Inr ch \<Rightarrow>
               after [MarkMessage message, Unmarshal (Value message), Sent ch flowMsg]
                 (ConsumeClaim unmarshal cw ms)))"

text \<open>Readings of a record of events: what was marked, logged, handed over.\<close>

fun marked :: "'f event list \<Rightarrow> ConsumerMessage list" where
  "marked [] = []"
| "marked (MarkMessage m # es) = m # marked es"
| "marked (e # es) = marked es"

fun log_lines :: "'f event list \<Rightarrow> string list" where
  "log_lines [] = []"
| "log_lines (LogPrintf l # es) = l # log_lines es"
| "log_lines (e # es) = log_lines es"

fun delivered :: "'f event list \<Rightarrow> (chan \<times> 'f) list" where
  "delivered [] = []"
| "delivered (Sent c f # es) = (c, f) # delivered es"
| "delivered (e # es) = delivered es"

text \<open>
  Every \<open>Unmarshal\<close> in a record of events comes directly after the \<open>MarkMessage\<close> of
  the message with that payload.
\<close>

fun mark_precedes_unmarshal :: "'f event list \<Rightarrow> bool" where
  "mark_precedes_unmarshal [] = True"
| "mark_precedes_unmarshal (MarkMessage m # Unmarshal b # es) =
     (Value m = b \<and> mark_precedes_unmarshal es)"
| "mark_precedes_unmarshal (Unmarshal b # es) = False"
| "mark_precedes_unmarshal (e # es) = mark_precedes_unmarshal es"

section \<open>Definitions used to state the properties\<close>

text \<open>The lines a connector method writes to the log when it returns.\<close>

definition logged_by :: "(world \<Rightarrow> fault + world) \<Rightarrow> world \<Rightarrow> string list" where
  "logged_by m w = (case m w of Inl f \<Rightarrow> [] | Inr w' \<Rightarrow> drop (length (logged w)) (logged w'))"

text \<open>
  The channel length a sequence of calls configures, as the specification words it: the
  value last passed to \<open>SetChannelLength\<close>, or the starting value when there is none.
\<close>

fun spec_channel_length :: "call list \<Rightarrow> 64 word \<Rightarrow> 64 word" where
  "spec_channel_length [] l = l"
| "spec_channel_length (CSetChannelLength n # cs) l = spec_channel_length cs n"
| "spec_channel_length (c # cs) l = spec_channel_length cs l"

text \<open>Every channel the connector holds has been made.\<close>

definition chans_made :: "world \<Rightarrow> bool" where
  "chans_made w \<longleftrightarrow>
     (case consumerChannel (connector w) of None \<Rightarrow> True | Some ch \<Rightarrow> ch < length (chans w)) \<and>
     (case producerChannel (connector w) of None \<Rightarrow> True | Some ch \<Rightarrow> ch < length (chans w)) \<and>
     (case manualErrSignal (connector w) of None \<Rightarrow> True | Some ch \<Rightarrow> ch < length (chans w))"

subsection \<open>Concrete inputs\<close>

definition ex_message :: "bytes \<Rightarrow> ConsumerMessage" where
  "ex_message b = \<lparr>Value = b, Topic = ''flows'', Partition = 0, Offset = 0\<rparr>"

text \<open>A decoder that rejects the empty payload and decodes any other to its length.\<close>

definition ex_unmarshal :: "bytes \<Rightarrow> error + nat" where
  "ex_unmarshal b = (if b = [] then Inl ''unexpected EOF'' else Inr (length b))"

text \<open>A consumer inside a session: \<open>ready\<close> was made by its owner and is still open.\<close>

definition ex_consumer :: consumer_world where
  "ex_consumer =
     \<lparr>self = \<lparr>ready = Some 0, flows = None, cancel = Some 0\<rparr>,
      cchans = [\<lparr>chan_cap = 0, chan_closed = False\<rparr>], cancelled = []\<rparr>"

text \<open>The same consumer after its first \<open>Setup\<close>.\<close>

definition ex_consumer_set_up :: consumer_world where
  "ex_consumer_set_up =
     \<lparr>self = \<lparr>ready = Some 0, flows = Some 1, cancel = Some 0\<rparr>,
      cchans = [\<lparr>chan_cap = 0, chan_closed = True\<rparr>, \<lparr>chan_cap = 0, chan_closed = False\<rparr>],
      cancelled = []\<rparr>"

definition ex_env :: "(string \<times> string) list" where
  "ex_env = [(''KAFKA_SASL_USER'', ''alice''), (''KAFKA_SASL_PASS'', ''secret'')]"

definition ex_start_consumer :: call where
  "ex_start_consumer = CStartConsumer None None ''kafka01:9093,kafka02:9093'' [''flows''] ''group'' 0"

definition ex_start_producer :: call where
  "ex_start_producer = CStartProducer None ''kafka01:9093'' ''flows''"

text \<open>Before any Start call there is no signal channel and no goroutine.\<close>

definition unstarted :: "world \<Rightarrow> bool" where
  "unstarted w \<longleftrightarrow> manualErrSignal (connector w) = None \<and> goroutines w = []"

text \<open>Manual error handling is on and no logger has been started.\<close>

definition manual :: "world \<Rightarrow> bool" where
  "manual w \<longleftrightarrow> manualErrFlag (connector w) \<and> (\<forall>g \<in> set (goroutines w). \<not> is_logger g)"

text \<open>
  Worlds reached from a new connector: manual error handling enabled before a producer is
  started, then a consumer started; credentials set by hand; a consumer started with
  channel length 8 and closed again, then consumer or producer started; a producer
  started and closed.
\<close>

definition world_of :: "fault + world \<Rightarrow> world \<Rightarrow> world" where
  "world_of r d = (case r of Inl f \<Rightarrow> d | Inr w \<Rightarrow> w)"

definition ex_manual_world :: world where
  "ex_manual_world =
     world_of (run ([CSetAuthAnon] @ CEnableManualErrorHandling # [ex_start_producer])
                 (new_world ex_env 16)) (new_world ex_env 16)"

definition ex_manual_started :: world where
  "ex_manual_started = world_of (exec ex_start_consumer ex_manual_world) ex_manual_world"

definition ex_authed_world :: world where
  "ex_authed_world = SetAuth ''alice'' ''secret'' (new_world [] 16)"

definition ex_restart_world :: world where
  "ex_restart_world =
     world_of (run [CSetChannelLength 8, ex_start_consumer, CCloseConsumer] (new_world ex_env 16))
       (new_world ex_env 16)"

definition ex_restarted :: world where
  "ex_restarted = world_of (exec ex_start_consumer ex_restart_world) ex_restart_world"

definition ex_producer_restarted :: world where
  "ex_producer_restarted = world_of (exec ex_start_producer ex_restart_world) ex_restart_world"

definition ex_producer_world :: world where
  "ex_producer_world = world_of (exec ex_start_producer (new_world ex_env 16)) (new_world ex_env 16)"

definition ex_producer_closed :: world where
  "ex_producer_closed = world_of (Close ex_producer_world) ex_producer_world"

definition ex_refused :: world where
  "ex_refused =
     world_of (exec (CStartConsumer None (Some ''kafka: client has run out of available brokers'')
                       ''kafka01:9093'' [''flows''] ''group'' 0) (new_world ex_env 16))
       (new_world ex_env 16)"

section \<open>Properties of the consume loop\<close>

lemma after_simps [simp]: "fst (after es r) = fst r" "snd (after es r) = es @ snd r"
  by (simp_all add: after_def)

lemma marked_append: "marked (xs @ ys) = marked xs @ marked ys"
  by (induction xs rule: marked.induct) simp_all

lemma log_lines_append: "log_lines (xs @ ys) = log_lines xs @ log_lines ys"
  by (induction xs rule: log_lines.induct) simp_all

lemma delivered_append: "delivered (xs @ ys) = delivered xs @ delivered ys"
  by (induction xs rule: delivered.induct) simp_all

lemma send_chan_open:
  "flows (self cw) = Some ch \<Longrightarrow> ch < length (cchans cw) \<Longrightarrow> \<not> chan_closed (cchans cw ! ch)
   \<Longrightarrow> send_chan (flows (self cw)) (cchans cw) = Inr ch"
  by (simp add: send_chan_def)

lemma ConsumeClaim_returns:
  assumes "send_chan (flows (self cw)) (cchans cw) = Inr ch"
  shows "fst (ConsumeClaim um cw ms) = None"
  using assms by (induction ms) (simp_all split: sum.splits)

lemma ConsumeClaim_append:
  assumes "send_chan (flows (self cw)) (cchans cw) = Inr ch"
  shows "snd (ConsumeClaim um cw (xs @ ys)) = snd (ConsumeClaim um cw xs) @ snd (ConsumeClaim um cw ys)"
  using assms by (induction xs) (simp_all split: sum.splits)

lemma ConsumeClaim_delivered:
  assumes "send_chan (flows (self cw)) (cchans cw) = Inr ch"
  shows "delivered (snd (ConsumeClaim um cw ms)) =
     concat (map (\<lambda>m. case um (Value m) of Inl e \<Rightarrow> [] | Inr f \<Rightarrow> [(ch, f)]) ms)"
  using assms by (induction ms) (simp_all split: sum.splits)

lemma ConsumeClaim_marked:
  "fst (ConsumeClaim um cw ms) = None \<Longrightarrow> marked (snd (ConsumeClaim um cw ms)) = ms"
  by (induction ms) (auto split: sum.splits)

lemma ConsumeClaim_order: "mark_precedes_unmarshal (snd (ConsumeClaim um cw ms))"
  by (induction ms) (auto split: sum.splits)

text \<open>
  C1.  The consumer's \<open>flows\<close> channel is made and open.  A message \<open>bad\<close> whose payload
  fails to decode, between any messages \<open>pre\<close> and \<open>post\<close>: the loop runs to the end of
  the claim, the failure is logged once between the lines of \<open>pre\<close> and of \<open>post\<close>,
  nothing is handed to \<open>flows\<close> for \<open>bad\<close>, and every payload of \<open>post\<close> that decodes
  is handed to \<open>flows\<close>, in order.
\<close>

theorem C1_broken_message_skipped:
  assumes "flows (self cw) = Some ch" and "ch < length (cchans cw)"
    and "\<not> chan_closed (cchans cw ! ch)" and "unmarshal (Value bad) = Inl err"
  shows "fst (ConsumeClaim unmarshal cw (pre @ bad # post)) = None \<and>
    log_lines (snd (ConsumeClaim unmarshal cw (pre @ bad # post))) =
      log_lines (snd (ConsumeClaim unmarshal cw pre))
      @ [''decodeMessages: Received broken message: '' @ err]
      @ log_lines (snd (ConsumeClaim unmarshal cw post)) \<and>
    delivered (snd (ConsumeClaim unmarshal cw (pre @ bad # post))) =
      delivered (snd (ConsumeClaim unmarshal cw pre))
      @ delivered (snd (ConsumeClaim unmarshal cw post)) \<and>
    delivered (snd (ConsumeClaim unmarshal cw post)) =
      concat (map (\<lambda>m. case unmarshal (Value m) of Inl e \<Rightarrow> [] | Inr f \<Rightarrow> [(ch, f)]) post)"
proof -
  have s: "send_chan (flows (self cw)) (cchans cw) = Inr ch"
    using assms(1-3) by (rule send_chan_open)
  have split: "snd (ConsumeClaim unmarshal cw (pre @ bad # post)) =
      snd (ConsumeClaim unmarshal cw pre)
      @ [MarkMessage bad, Unmarshal (Value bad),
         LogPrintf (''decodeMessages: Received broken message: '' @ err)]
      @ snd (ConsumeClaim unmarshal cw post)"
    using assms(4) by (simp add: ConsumeClaim_append [OF s])
  show ?thesis
    by (simp add: split ConsumeClaim_returns [OF s] ConsumeClaim_delivered [OF s]
        log_lines_append delivered_append)
qed

theorem C1_broken_message_skipped_witness:
  "flows (self ex_consumer_set_up) = Some 1 \<and> 1 < length (cchans ex_consumer_set_up) \<and>
   \<not> chan_closed (cchans ex_consumer_set_up ! 1) \<and>
   ex_unmarshal (Value (ex_message [])) = Inl ''unexpected EOF'' \<and>
   fst (ConsumeClaim ex_unmarshal ex_consumer_set_up
          ([ex_message [7]] @ ex_message [] # [ex_message [8, 9]])) = None \<and>
   delivered (snd (ConsumeClaim ex_unmarshal ex_consumer_set_up
          ([ex_message [7]] @ ex_message [] # [ex_message [8, 9]]))) = [(1, 1), (1, 2)] \<and>
   log_lines (snd (ConsumeClaim ex_unmarshal ex_consumer_set_up
          ([ex_message [7]] @ ex_message [] # [ex_message [8, 9]]))) =
     [''decodeMessages: Received broken message: unexpected EOF'']"
proof -
  have h: "flows (self ex_consumer_set_up) = Some 1" "1 < length (cchans ex_consumer_set_up)"
    "\<not> chan_closed (cchans ex_consumer_set_up ! 1)"
    "ex_unmarshal (Value (ex_message [])) = Inl ''unexpected EOF''"
    by (simp_all add: ex_consumer_set_up_def ex_unmarshal_def ex_message_def)
  show ?thesis
    using h C1_broken_message_skipped
      [where cw = ex_consumer_set_up and ch = 1 and unmarshal = ex_unmarshal
         and bad = "ex_message []" and err = "''unexpected EOF''"
         and pre = "[ex_message [7]]" and post = "[ex_message [8, 9]]"]
    by (simp add: ex_unmarshal_def ex_message_def ex_consumer_set_up_def send_chan_def)
qed

text \<open>
  C9.  In the events of \<open>ConsumeClaim\<close> every decoding attempt comes directly after the
  \<open>MarkMessage\<close> of the message being decoded; and when the loop runs to the end of the
  claim, the marked messages are all the messages of the claim, in order, those whose
  payload fails to decode included.
\<close>

theorem C9_marked_before_decoding:
  "mark_precedes_unmarshal (snd (ConsumeClaim unmarshal cw ms)) \<and>
   (fst (ConsumeClaim unmarshal cw ms) = None \<longrightarrow>
      marked (snd (ConsumeClaim unmarshal cw ms)) = ms \<and>
      (\<forall>m \<in> set ms. (\<exists>err. unmarshal (Value m) = Inl err) \<longrightarrow>
         m \<in> set (marked (snd (ConsumeClaim unmarshal cw ms)))))"
  by (simp add: ConsumeClaim_order ConsumeClaim_marked)

theorem C9_marked_before_decoding_witness:
  "fst (ConsumeClaim ex_unmarshal ex_consumer_set_up [ex_message [7], ex_message []]) = None \<and>
   ex_message [] \<in> set [ex_message [7], ex_message []] \<and>
   ex_unmarshal (Value (ex_message [])) = Inl ''unexpected EOF'' \<and>
   marked (snd (ConsumeClaim ex_unmarshal ex_consumer_set_up [ex_message [7], ex_message []]))
     = [ex_message [7], ex_message []] \<and>
   ex_message [] \<in> set (marked (snd (ConsumeClaim ex_unmarshal ex_consumer_set_up
                                        [ex_message [7], ex_message []])))"
proof -
  have r: "fst (ConsumeClaim ex_unmarshal ex_consumer_set_up [ex_message [7], ex_message []]) = None"
    by (simp add: ex_unmarshal_def ex_message_def ex_consumer_set_up_def send_chan_def)
  have u: "ex_unmarshal (Value (ex_message [])) = Inl ''unexpected EOF''"
    by (simp add: ex_unmarshal_def ex_message_def)
  show ?thesis
    using r u C9_marked_before_decoding
      [of ex_unmarshal ex_consumer_set_up "[ex_message [7], ex_message []]"]
    by simp
qed

section \<open>Properties of the Connector\<close>

subsection \<open>What each method leaves unchanged\<close>

lemma run_append:
  "run (xs @ ys) w = (case run xs w of Inl f \<Rightarrow> Inl f | Inr w' \<Rightarrow> run ys w')"
  by (induction xs arbitrary: w) (simp_all split: sum.splits)

lemma ensure_signal_keeps [simp]:
  "manualErrFlag (connector (ensure_signal w)) = manualErrFlag (connector w)"
  "channelLength (connector (ensure_signal w)) = channelLength (connector w)"
  "user (connector (ensure_signal w)) = user (connector w)"
  "pass (connector (ensure_signal w)) = pass (connector w)"
  "consumer (connector (ensure_signal w)) = consumer (connector w)"
  "producer (connector (ensure_signal w)) = producer (connector w)"
  "consumerChannel (connector (ensure_signal w)) = consumerChannel (connector w)"
  "producerChannel (connector (ensure_signal w)) = producerChannel (connector w)"
  "goroutines (ensure_signal w) = goroutines w"
  "sessions (ensure_signal w) = sessions w"
  "logged (ensure_signal w) = logged w"
  "libcalls (ensure_signal w) = libcalls w"
  "environ (ensure_signal w) = environ w"
  "chan_limit (ensure_signal w) = chan_limit w"
  by (simp_all add: ensure_signal_def make_chan_def)

lemma ensure_signal_made: "chans_made w \<Longrightarrow> chans_made (ensure_signal w)"
  by (auto simp add: chans_made_def ensure_signal_def make_chan_def split: option.splits)

lemma StartConsumer_success:
  assumes "StartConsumer ce ne b ts g off w = Inr (None, w')"
  shows "ce = None \<and> ne = None \<and>
    unat (channelLength (connector w)) \<le> chan_limit w \<and>
    connector w' = (connector (ensure_signal w))
       \<lparr>consumer := Some (length (sessions w)),
        consumerChannel := Some (length (chans (ensure_signal w)))\<rparr> \<and>
    chans w' = chans (ensure_signal w)
       @ [\<lparr>chan_cap = unat (channelLength (connector w)), chan_closed = False\<rparr>] \<and>
    goroutines w' = goroutines w
       @ decodeMessages (length (sessions w)) (length (chans (ensure_signal w)))
         # (if manualErrFlag (connector w) then [] else [ConsumerLogger]) \<and>
    sessions w' = sessions w @ [Running] \<and>
    environ w' = environ w \<and> chan_limit w' = chan_limit w"
  using assms
  by (auto simp add: StartConsumer_def Let_def open_session_def make_chan_sized_def
      make_chan_def log_line_def go_def call_lib_def
      split: option.splits sum.splits prod.splits if_splits)

lemma StartProducer_success:
  assumes "StartProducer ne b t w = Inr (None, w')"
  shows "ne = None \<and>
    unat (channelLength (connector w)) \<le> chan_limit w \<and>
    connector w' = (connector (ensure_signal w))
       \<lparr>producer := Some (length (sessions w)),
        producerChannel := Some (length (chans (ensure_signal w)))\<rparr> \<and>
    chans w' = chans (ensure_signal w)
       @ [\<lparr>chan_cap = unat (channelLength (connector w)), chan_closed = False\<rparr>] \<and>
    goroutines w' = goroutines w
       @ encodeMessages (length (sessions w)) t (length (chans (ensure_signal w)))
         # (if manualErrFlag (connector w) then [] else [ProducerLogger]) \<and>
    sessions w' = sessions w @ [Running] \<and>
    environ w' = environ w \<and> chan_limit w' = chan_limit w"
  using assms
  by (auto simp add: StartProducer_def Let_def open_session_def make_chan_sized_def
      make_chan_def log_line_def go_def call_lib_def
      split: option.splits sum.splits prod.splits if_splits)

lemma StartConsumer_error:
  assumes "StartConsumer ce ne b ts g off w = Inr (Some e, w')"
  shows "manualErrFlag (connector w') = manualErrFlag (connector w) \<and>
    channelLength (connector w') = channelLength (connector w) \<and>
    consumerChannel (connector w') = consumerChannel (connector w) \<and>
    producerChannel (connector w') = producerChannel (connector w) \<and>
    producer (connector w') = producer (connector w) \<and>
    manualErrSignal (connector w') = manualErrSignal (connector (ensure_signal w)) \<and>
    chans w' = chans (ensure_signal w) \<and> goroutines w' = goroutines w \<and>
    sessions w' = sessions w \<and> environ w' = environ w \<and> chan_limit w' = chan_limit w"
  using assms
  by (auto simp add: StartConsumer_def Let_def open_session_def make_chan_sized_def
      make_chan_def log_line_def go_def call_lib_def
      split: option.splits sum.splits prod.splits if_splits)

lemma StartProducer_error:
  assumes "StartProducer ne b t w = Inr (Some e, w')"
  shows "manualErrFlag (connector w') = manualErrFlag (connector w) \<and>
    channelLength (connector w') = channelLength (connector w) \<and>
    consumerChannel (connector w') = consumerChannel (connector w) \<and>
    producerChannel (connector w') = producerChannel (connector w) \<and>
    consumer (connector w') = consumer (connector w) \<and>
    manualErrSignal (connector w') = manualErrSignal (connector (ensure_signal w)) \<and>
    chans w' = chans (ensure_signal w) \<and> goroutines w' = goroutines w \<and>
    sessions w' = sessions w \<and> environ w' = environ w \<and> chan_limit w' = chan_limit w"
  using assms
  by (auto simp add: StartProducer_def Let_def open_session_def make_chan_sized_def
      make_chan_def log_line_def go_def call_lib_def
      split: option.splits sum.splits prod.splits if_splits)

lemma close_chan_length: "close_chan c h = Inr h' \<Longrightarrow> length h' = length h"
  by (auto simp add: close_chan_def split: option.splits if_splits)

lemma EnableManualErrorHandling_returns:
  assumes "EnableManualErrorHandling w = Inr w'"
  shows "connector w' = (connector w)\<lparr>manualErrFlag := True\<rparr> \<and>
    length (chans w') = length (chans w) \<and> goroutines w' = goroutines w \<and>
    sessions w' = sessions w \<and> environ w' = environ w \<and> chan_limit w' = chan_limit w"
  using assms
  by (auto simp add: EnableManualErrorHandling_def Let_def close_chan_length
      split: sum.splits if_splits)

lemma consumer_Close_returns:
  assumes "consumer_Close r w = Inr w'"
  shows "connector w' = connector w \<and> chans w' = chans w \<and> goroutines w' = goroutines w \<and>
    logged w' = logged w \<and> environ w' = environ w \<and> chan_limit w' = chan_limit w"
  using assms by (auto simp add: consumer_Close_def call_lib_def split: option.splits)

lemma producer_Close_returns:
  assumes "producer_Close r w = Inr w'"
  shows "connector w' = connector w \<and> chans w' = chans w \<and> goroutines w' = goroutines w \<and>
    logged w' = logged w \<and> environ w' = environ w \<and> chan_limit w' = chan_limit w"
  using assms
  by (auto simp add: producer_Close_def call_lib_def split: option.splits if_splits)

lemma Close_returns:
  assumes "Close w = Inr w'"
  shows "connector w' = connector w \<and> chans w' = chans w \<and> goroutines w' = goroutines w \<and>
    environ w' = environ w \<and> chan_limit w' = chan_limit w"
  using assms
  by (auto simp add: Close_def log_line_def split: sum.splits if_splits
      dest!: consumer_Close_returns producer_Close_returns)

lemma CloseConsumer_returns:
  assumes "CloseConsumer w = Inr w'"
  shows "connector w' = connector w \<and> chans w' = chans w \<and> goroutines w' = goroutines w \<and>
    environ w' = environ w \<and> chan_limit w' = chan_limit w"
  using assms
  by (auto simp add: CloseConsumer_def log_line_def split: sum.splits if_splits
      dest!: consumer_Close_returns producer_Close_returns)

lemma CloseProducer_returns:
  assumes "CloseProducer w = Inr w'"
  shows "connector w' = connector w \<and> chans w' = chans w \<and> goroutines w' = goroutines w \<and>
    environ w' = environ w \<and> chan_limit w' = chan_limit w"
  using assms
  by (auto simp add: CloseProducer_def log_line_def split: sum.splits if_splits
      dest!: consumer_Close_returns producer_Close_returns)

lemma SetAuthFromEnv_world:
  "snd (SetAuthFromEnv w) =
     w\<lparr>connector := (connector w)\<lparr>user := Getenv w ''KAFKA_SASL_USER'',
                                      pass := Getenv w ''KAFKA_SASL_PASS''\<rparr>\<rparr>"
  by (simp add: SetAuthFromEnv_def Let_def Getenv_def)

lemma inspected_returns: "inspected r w = Inr w' \<Longrightarrow> w' = w"
  by (auto simp add: inspected_def split: sum.splits)

lemma returned_cases:
  "returned r = Inr w' \<Longrightarrow> r = Inr (None, w') \<or> (\<exists>e. r = Inr (Some e, w'))"
  by (cases r) (auto simp add: returned_def split: prod.splits)

lemma StartConsumer_succeeds:
  "unat (channelLength (connector w)) \<le> chan_limit w \<Longrightarrow>
   \<exists>w'. StartConsumer None None broker topics consumergroup offset w = Inr (None, w')"
  by (simp add: StartConsumer_def Let_def open_session_def make_chan_sized_def make_chan_def
      log_line_def call_lib_def go_def)

lemma StartProducer_succeeds:
  "unat (channelLength (connector w)) \<le> chan_limit w \<Longrightarrow>
   \<exists>w'. StartProducer None broker topic w = Inr (None, w')"
  by (simp add: StartProducer_def Let_def open_session_def make_chan_sized_def make_chan_def
      log_line_def call_lib_def go_def)

lemma ensure_signal_length: "length (chans w) \<le> length (chans (ensure_signal w))"
  by (simp add: ensure_signal_def make_chan_def)

lemmas conn_defs = new_world_def zero_Connector_def log_line_def go_def call_lib_def Getenv_def
  SetAuth_def SetAuthFromEnv_def SetAuthAnon_def EnableManualErrorHandling_def
  SetChannelLength_def ensure_signal_def open_session_def consConf_def StartConsumer_def
  prodConf_def StartProducer_def consumer_Close_def producer_Close_def session_channel_def
  Close_def
  CloseConsumer_def CloseProducer_def ConsumerErrors_def ConsumerNotifications_def
  ProducerErrors_def returned_def inspected_def make_chan_def make_chan_sized_def
  close_chan_def Let_def ex_env_def ex_start_consumer_def ex_start_producer_def

subsection \<open>Manual error handling\<close>

lemma exec_unstarted:
  assumes "\<not> is_Start c" and "unstarted w" and "exec c w = Inr w'"
  shows "unstarted w'"
proof (cases c)
  case CEnableManualErrorHandling
  with assms show ?thesis
    by (auto simp add: unstarted_def dest!: EnableManualErrorHandling_returns)
next
  case CClose
  with assms show ?thesis by (auto simp add: unstarted_def dest!: Close_returns)
next
  case CCloseConsumer
  with assms show ?thesis by (auto simp add: unstarted_def dest!: CloseConsumer_returns)
next
  case CCloseProducer
  with assms show ?thesis by (auto simp add: unstarted_def dest!: CloseProducer_returns)
qed (use assms in \<open>auto simp add: unstarted_def SetAuth_def SetAuthFromEnv_world
      SetAuthAnon_def SetChannelLength_def dest!: inspected_returns\<close>)

lemma run_unstarted:
  assumes "\<forall>c \<in> set cs. \<not> is_Start c" and "unstarted w" and "run cs w = Inr w'"
  shows "unstarted w'"
  using assms
proof (induction cs arbitrary: w)
  case Nil
  then show ?case by simp
next
  case (Cons c cs)
  then obtain w1 where e: "exec c w = Inr w1" and r: "run cs w1 = Inr w'"
    by (auto split: sum.splits)
  from Cons.prems e have "unstarted w1" by (auto intro: exec_unstarted)
  with Cons r show ?case by auto
qed

lemma exec_manual:
  assumes "manual w" and "exec c w = Inr w'"
  shows "manual w'"
proof (cases c)
  case CEnableManualErrorHandling
  with assms show ?thesis
    by (auto simp add: manual_def dest!: EnableManualErrorHandling_returns)
next
  case (CStartConsumer ce ne b ts g off)
  with assms have "StartConsumer ce ne b ts g off w = Inr (None, w') \<or>
      (\<exists>e. StartConsumer ce ne b ts g off w = Inr (Some e, w'))"
    by (auto dest: returned_cases)
  then show ?thesis
  proof
    assume "StartConsumer ce ne b ts g off w = Inr (None, w')"
    from StartConsumer_success [OF this] assms(1) show ?thesis
      by (auto simp add: manual_def)
  next
    assume "\<exists>e. StartConsumer ce ne b ts g off w = Inr (Some e, w')"
    then obtain e where "StartConsumer ce ne b ts g off w = Inr (Some e, w')" ..
    from StartConsumer_error [OF this] assms(1) show ?thesis
      by (auto simp add: manual_def)
  qed
next
  case (CStartProducer ne b t)
  with assms have "StartProducer ne b t w = Inr (None, w') \<or>
      (\<exists>e. StartProducer ne b t w = Inr (Some e, w'))"
    by (auto dest: returned_cases)
  then show ?thesis
  proof
    assume "StartProducer ne b t w = Inr (None, w')"
    from StartProducer_success [OF this] assms(1) show ?thesis
      by (auto simp add: manual_def)
  next
    assume "\<exists>e. StartProducer ne b t w = Inr (Some e, w')"
    then obtain e where "StartProducer ne b t w = Inr (Some e, w')" ..
    from StartProducer_error [OF this] assms(1) show ?thesis
      by (auto simp add: manual_def)
  qed
next
  case CClose
  with assms show ?thesis by (auto simp add: manual_def dest!: Close_returns)
next
  case CCloseConsumer
  with assms show ?thesis by (auto simp add: manual_def dest!: CloseConsumer_returns)
next
  case CCloseProducer
  with assms show ?thesis by (auto simp add: manual_def dest!: CloseProducer_returns)
qed (use assms in \<open>auto simp add: manual_def SetAuth_def SetAuthFromEnv_world
      SetAuthAnon_def SetChannelLength_def dest!: inspected_returns\<close>)


lemma run_manual:
  assumes "manual w" and "run cs w = Inr w'"
  shows "manual w'"
  using assms
proof (induction cs arbitrary: w)
  case Nil
  then show ?case by simp
next
  case (Cons c cs)
  then obtain w1 where e: "exec c w = Inr w1" and r: "run cs w1 = Inr w'"
    by (auto split: sum.splits)
  from Cons.prems(1) e have "manual w1" by (rule exec_manual)
  with Cons.IH r show ?case by blast
qed

lemma new_world_unstarted: "unstarted (new_world env limit)"
  by (simp add: unstarted_def new_world_def zero_Connector_def)

text \<open>
  C2.  \<open>EnableManualErrorHandling\<close> is called on a new connector after calls \<open>pre\<close>
  none of which is a Start call, and any calls \<open>post\<close> follow.  In the world reached no
  logger goroutine has been started, and a \<open>StartConsumer\<close> or \<open>StartProducer\<close> that
  succeeds there starts exactly one goroutine, the decoding or encoding one.
\<close>

theorem C2_manual_before_start_no_logger:
  assumes "\<forall>c \<in> set pre. \<not> is_Start c"
    and "run (pre @ CEnableManualErrorHandling # post) (new_world env limit) = Inr w"
  shows "(\<forall>g \<in> set (goroutines w). \<not> is_logger g) \<and>
    (StartConsumer certErr connErr broker topics consumergroup offset w = Inr (None, w') \<longrightarrow>
       (\<exists>s ch. goroutines w' = goroutines w @ [decodeMessages s ch])) \<and>
    (StartProducer connErr' broker' topic w = Inr (None, w'') \<longrightarrow>
       (\<exists>s ch. goroutines w'' = goroutines w @ [encodeMessages s topic ch]))"
proof -
  from assms(2) obtain w1 w2 where p: "run pre (new_world env limit) = Inr w1"
    and e: "EnableManualErrorHandling w1 = Inr w2" and r: "run post w2 = Inr w"
    by (auto simp add: run_append split: sum.splits)
  from assms(1) new_world_unstarted p have "unstarted w1" by (rule run_unstarted)
  with e have "manual w2"
    by (auto simp add: unstarted_def manual_def dest!: EnableManualErrorHandling_returns)
  from this r have m: "manual w" by (rule run_manual)
  show ?thesis
  proof (intro conjI impI)
    show "\<forall>g \<in> set (goroutines w). \<not> is_logger g" using m by (simp add: manual_def)
  next
    assume "StartConsumer certErr connErr broker topics consumergroup offset w = Inr (None, w')"
    from StartConsumer_success [OF this] m
    show "\<exists>s ch. goroutines w' = goroutines w @ [decodeMessages s ch]"
      by (simp add: manual_def)
  next
    assume "StartProducer connErr' broker' topic w = Inr (None, w'')"
    from StartProducer_success [OF this] m
    show "\<exists>s ch. goroutines w'' = goroutines w @ [encodeMessages s topic ch]"
      by (simp add: manual_def)
  qed
qed

theorem C2_manual_before_start_no_logger_witness:
  "\<not> is_Start CSetAuthAnon \<and>
   run ([CSetAuthAnon] @ CEnableManualErrorHandling # [ex_start_producer]) (new_world ex_env 16)
     = Inr ex_manual_world \<and>
   goroutines ex_manual_world = [encodeMessages 0 ''flows'' 0] \<and>
   StartConsumer None None ''kafka01:9093,kafka02:9093'' [''flows''] ''group'' 0 ex_manual_world
     = Inr (None, ex_manual_started) \<and>
   (\<exists>s ch. goroutines ex_manual_started = goroutines ex_manual_world @ [decodeMessages s ch])"
proof -
  have p: "\<forall>c \<in> set [CSetAuthAnon]. \<not> is_Start c" by simp
  have r: "run ([CSetAuthAnon] @ CEnableManualErrorHandling # [ex_start_producer])
             (new_world ex_env 16) = Inr ex_manual_world"
    by (simp add: ex_manual_world_def world_of_def conn_defs)
  have s: "StartConsumer None None ''kafka01:9093,kafka02:9093'' [''flows''] ''group'' 0
      ex_manual_world = Inr (None, ex_manual_started)"
    by (simp add: ex_manual_started_def ex_manual_world_def world_of_def conn_defs)
  have g: "goroutines ex_manual_world = [encodeMessages 0 ''flows'' 0]"
    by (simp add: ex_manual_world_def world_of_def conn_defs)
  have "\<exists>s ch. goroutines ex_manual_started = goroutines ex_manual_world @ [decodeMessages s ch]"
    using C2_manual_before_start_no_logger [OF p r, where certErr = None and connErr = None
        and broker = "''kafka01:9093,kafka02:9093''" and topics = "[''flows'']"
        and consumergroup = "''group''" and offset = 0 and w' = ex_manual_started] s
    by blast
  with r s g show ?thesis by simp
qed

subsection \<open>Failure to connect\<close>

text \<open>
  C3.  When \<open>cluster.NewConsumer\<close> fails with \<open>err\<close>, \<open>StartConsumer\<close> returns \<open>err\<close>;
  it has called the library once, no goroutine has been started, no session exists and
  the connector's consumer is nil.  When already \<open>x509.SystemCertPool\<close> fails, that error
  is returned, with no call to the library and no goroutine.
\<close>

theorem C3_connect_failure_returns_error:
  "(\<exists>w'. StartConsumer None (Some err) broker topics consumergroup offset w = Inr (Some err, w') \<and>
      goroutines w' = goroutines w \<and> sessions w' = sessions w \<and>
      consumer (connector w') = None \<and>
      libcalls w' = libcalls w
        @ [NewConsumer (Split_comma broker) consumergroup topics (consConf (connector w) offset)]) \<and>
   (\<exists>w'. StartConsumer (Some err) connErr broker topics consumergroup offset w = Inr (Some err, w') \<and>
      goroutines w' = goroutines w \<and> sessions w' = sessions w \<and> libcalls w' = libcalls w)"
  by (simp add: StartConsumer_def Let_def open_session_def log_line_def call_lib_def consConf_def)

theorem C3_connect_failure_returns_error_witness:
  "exec (CStartConsumer None (Some ''kafka: client has run out of available brokers'')
           ''kafka01:9093'' [''flows''] ''group'' 0) (new_world ex_env 16) = Inr ex_refused \<and>
   goroutines ex_refused = [] \<and> sessions ex_refused = [] \<and>
   consumer (connector ex_refused) = None \<and> length (libcalls ex_refused) = 1"
proof -
  obtain w' where s: "StartConsumer None (Some ''kafka: client has run out of available brokers'')
        ''kafka01:9093'' [''flows''] ''group'' 0 (new_world ex_env 16)
      = Inr (Some ''kafka: client has run out of available brokers'', w')"
    and g: "goroutines w' = goroutines (new_world ex_env 16)"
    and n: "sessions w' = sessions (new_world ex_env 16)"
    and c: "consumer (connector w') = None"
    and l: "libcalls w' = libcalls (new_world ex_env 16)
        @ [NewConsumer (Split_comma ''kafka01:9093'') ''group'' [''flows'']
             (consConf (connector (new_world ex_env 16)) 0)]"
    using C3_connect_failure_returns_error
      [of "''kafka: client has run out of available brokers''" "''kafka01:9093''" "[''flows'']"
          "''group''" 0 "new_world ex_env 16"]
    by blast
  have "ex_refused = w'"
    by (simp add: ex_refused_def world_of_def returned_def s)
  with s g n c l show ?thesis
    by (simp add: returned_def new_world_def)
qed

subsection \<open>Credentials from the environment\<close>

text \<open>
  C4.  \<open>SetAuthFromEnv\<close> returns an error exactly when \<open>os.Getenv\<close> gives the empty
  string for \<open>KAFKA_SASL_USER\<close> or for \<open>KAFKA_SASL_PASS\<close> (the variable is unset, or
  set to nothing); when both are non-empty it returns nil and the connector's user and
  password are those two values.
\<close>

theorem C4_SetAuthFromEnv_error_iff_absent:
  "(fst (SetAuthFromEnv w) \<noteq> None \<longleftrightarrow>
      Getenv w ''KAFKA_SASL_USER'' = [] \<or> Getenv w ''KAFKA_SASL_PASS'' = []) \<and>
   (Getenv w ''KAFKA_SASL_USER'' \<noteq> [] \<and> Getenv w ''KAFKA_SASL_PASS'' \<noteq> [] \<longrightarrow>
      fst (SetAuthFromEnv w) = None \<and>
      user (connector (snd (SetAuthFromEnv w))) = Getenv w ''KAFKA_SASL_USER'' \<and>
      pass (connector (snd (SetAuthFromEnv w))) = Getenv w ''KAFKA_SASL_PASS'') \<and>
   (Getenv w k = [] \<longleftrightarrow> map_of (environ w) k = None \<or> map_of (environ w) k = Some [])"
  by (simp add: SetAuthFromEnv_def Let_def Getenv_def split: option.splits)

theorem C4_SetAuthFromEnv_error_iff_absent_witness:
  "Getenv (new_world ex_env 16) ''KAFKA_SASL_USER'' \<noteq> [] \<and>
   Getenv (new_world ex_env 16) ''KAFKA_SASL_PASS'' \<noteq> [] \<and>
   fst (SetAuthFromEnv (new_world ex_env 16)) = None \<and>
   user (connector (snd (SetAuthFromEnv (new_world ex_env 16)))) = ''alice'' \<and>
   pass (connector (snd (SetAuthFromEnv (new_world ex_env 16)))) = ''secret''"
proof -
  have g: "Getenv (new_world ex_env 16) ''KAFKA_SASL_USER'' = ''alice''"
    "Getenv (new_world ex_env 16) ''KAFKA_SASL_PASS'' = ''secret''"
    by (simp_all add: Getenv_def new_world_def ex_env_def)
  show ?thesis
    using C4_SetAuthFromEnv_error_iff_absent [of "new_world ex_env 16"] by (simp add: g)
qed

text \<open>
  C10.  Whatever it returns, \<open>SetAuthFromEnv\<close> leaves the two values of the environment
  in the connector's user and password.  So when it returns an error on a connector whose
  user and password were both set, the connector is no longer what it was.
\<close>

theorem C10_SetAuthFromEnv_overwrites:
  "user (connector (snd (SetAuthFromEnv w))) = Getenv w ''KAFKA_SASL_USER'' \<and>
   pass (connector (snd (SetAuthFromEnv w))) = Getenv w ''KAFKA_SASL_PASS'' \<and>
   (fst (SetAuthFromEnv w) \<noteq> None \<and> user (connector w) \<noteq> [] \<and> pass (connector w) \<noteq> [] \<longrightarrow>
      connector (snd (SetAuthFromEnv w)) \<noteq> connector w)"
proof -
  have u: "user (connector (snd (SetAuthFromEnv w))) = Getenv w ''KAFKA_SASL_USER''"
    and p: "pass (connector (snd (SetAuthFromEnv w))) = Getenv w ''KAFKA_SASL_PASS''"
    by (simp_all add: SetAuthFromEnv_def Let_def Getenv_def)
  have e: "fst (SetAuthFromEnv w) \<noteq> None \<Longrightarrow>
      Getenv w ''KAFKA_SASL_USER'' = [] \<or> Getenv w ''KAFKA_SASL_PASS'' = []"
    by (simp add: SetAuthFromEnv_def Let_def Getenv_def split: if_splits)
  show ?thesis using u p e by metis
qed

theorem C10_SetAuthFromEnv_overwrites_witness:
  "fst (SetAuthFromEnv ex_authed_world) \<noteq> None \<and>
   user (connector ex_authed_world) = ''alice'' \<and> pass (connector ex_authed_world) = ''secret'' \<and>
   user (connector (snd (SetAuthFromEnv ex_authed_world))) = [] \<and>
   pass (connector (snd (SetAuthFromEnv ex_authed_world))) = [] \<and>
   connector (snd (SetAuthFromEnv ex_authed_world)) \<noteq> connector ex_authed_world"
proof -
  have e: "fst (SetAuthFromEnv ex_authed_world) \<noteq> None"
    "user (connector ex_authed_world) = ''alice''" "pass (connector ex_authed_world) = ''secret''"
    "Getenv ex_authed_world ''KAFKA_SASL_USER'' = []"
    "Getenv ex_authed_world ''KAFKA_SASL_PASS'' = []"
    by (simp_all add: ex_authed_world_def conn_defs)
  show ?thesis
    using C10_SetAuthFromEnv_overwrites [of ex_authed_world] by (simp add: e)
qed

subsection \<open>Closing\<close>

text \<open>
  C5, as the specification states it, has \<open>Close\<close> log a warning on a connector with
  neither consumer nor producer.  On the new connector \<open>Close\<close> logs nothing.
\<close>

theorem C5_Close_logs_nothing: "logged_by Close (new_world [] 16) = []"
  by (simp add: logged_by_def Close_def new_world_def zero_Connector_def)

text \<open>
  C5, amended.  On a connector with neither consumer nor producer \<open>Close\<close> returns,
  changes nothing and logs nothing, so \<open>Close\<close> twice in a row returns there too.
  \<open>CloseConsumer\<close> without a consumer, and \<open>CloseProducer\<close> without a producer,
  return, leave connector, channels, sessions and goroutines as they are, call nothing in
  the library, and log one warning; called again they do the same again.  \<open>Close\<close> on a
  connector that holds a running producer and no consumer closes that session, logs that
  it did, and leaves the connector's fields as they are.
\<close>

theorem C5_Close_uninitialized:
  "(consumer (connector w) = None \<and> producer (connector w) = None \<longrightarrow>
      Close w = Inr w \<and> (\<exists>w1 w2. Close w = Inr w1 \<and> Close w1 = Inr w2 \<and> w2 = w)) \<and>
   (consumer (connector w) = None \<longrightarrow>
      (\<exists>w' w''. CloseConsumer w = Inr w' \<and> connector w' = connector w \<and> chans w' = chans w \<and>
         sessions w' = sessions w \<and> goroutines w' = goroutines w \<and> libcalls w' = libcalls w \<and>
         logged w' = logged w @ [''WARNING: CloseConsumer called, but no Consumer was initialized.''] \<and>
         CloseConsumer w' = Inr w'' \<and> connector w'' = connector w \<and>
         logged w'' = logged w' @ [''WARNING: CloseConsumer called, but no Consumer was initialized.''])) \<and>
   (producer (connector w) = None \<longrightarrow>
      (\<exists>w' w''. CloseProducer w = Inr w' \<and> connector w' = connector w \<and> chans w' = chans w \<and>
         sessions w' = sessions w \<and> goroutines w' = goroutines w \<and> libcalls w' = libcalls w \<and>
         logged w' = logged w @ [''WARNING: CloseProducer called, but no Producer was initialized.''] \<and>
         CloseProducer w' = Inr w'' \<and> connector w'' = connector w \<and>
         logged w'' = logged w' @ [''WARNING: CloseProducer called, but no Producer was initialized.''])) \<and>
   (consumer (connector w) = None \<and> producer (connector w) = Some p \<and>
    p < length (sessions w) \<and> sessions w ! p = Running \<longrightarrow>
      (\<exists>w'. Close w = Inr w' \<and> connector w' = connector w \<and>
         sessions w' = (sessions w)[p := Closed] \<and>
         libcalls w' = libcalls w @ [SessionClose p] \<and>
         logged w' = logged w @ [''Kafka Producer connection closed.'']))"
  by (simp add: Close_def CloseConsumer_def CloseProducer_def producer_Close_def
      log_line_def call_lib_def)

theorem C5_Close_uninitialized_witness:
  "consumer (connector (new_world [] 16)) = None \<and> producer (connector (new_world [] 16)) = None \<and>
   Close (new_world [] 16) = Inr (new_world [] 16) \<and>
   logged_by CloseConsumer (new_world [] 16)
     = [''WARNING: CloseConsumer called, but no Consumer was initialized.''] \<and>
   logged_by CloseProducer (new_world [] 16)
     = [''WARNING: CloseProducer called, but no Producer was initialized.''] \<and>
   consumer (connector ex_producer_world) = None \<and> producer (connector ex_producer_world) = Some 0 \<and>
   sessions ex_producer_world = [Running] \<and>
   Close ex_producer_world = Inr ex_producer_closed \<and>
   sessions ex_producer_closed = [Closed] \<and>
   producer (connector ex_producer_closed) = Some 0 \<and>
   logged_by Close ex_producer_world = [''Kafka Producer connection closed.'']"
proof -
  have n: "consumer (connector (new_world [] 16)) = None" "producer (connector (new_world [] 16)) = None"
    by (simp_all add: new_world_def zero_Connector_def)
  have p: "consumer (connector ex_producer_world) = None"
    "producer (connector ex_producer_world) = Some 0" "sessions ex_producer_world = [Running]"
    by (simp_all add: ex_producer_world_def world_of_def conn_defs)
  have c: "Close ex_producer_world = Inr ex_producer_closed"
    by (simp add: ex_producer_closed_def ex_producer_world_def world_of_def conn_defs)
  have a: "Close (new_world [] 16) = Inr (new_world [] 16)"
    "logged_by CloseConsumer (new_world [] 16)
       = [''WARNING: CloseConsumer called, but no Consumer was initialized.'']"
    "logged_by CloseProducer (new_world [] 16)
       = [''WARNING: CloseProducer called, but no Producer was initialized.'']"
    using C5_Close_uninitialized [of "new_world [] 16"] n
    by (auto simp add: logged_by_def)
  have b: "sessions ex_producer_closed = [Closed]"
    "producer (connector ex_producer_closed) = Some 0"
    "logged_by Close ex_producer_world = [''Kafka Producer connection closed.'']"
    using C5_Close_uninitialized [of ex_producer_world 0] p c
    by (auto simp add: logged_by_def)
  from n p c a b show ?thesis by simp
qed

text \<open>
  \<open>Close\<close> does not reset the session fields.  After a producer was started and closed,
  the connector still holds it, and a second \<open>Close\<close> hands the closed producer to the
  library again.
\<close>

lemma Close_again_after_StartProducer:
  "run [ex_start_producer, CClose] (new_world ex_env 16) = Inr ex_producer_closed \<and>
   run [ex_start_producer, CClose, CClose] (new_world ex_env 16)
     = Inl (Panic ''send on closed channel'') \<and>
   run [ex_start_producer, CCloseProducer, CCloseProducer] (new_world ex_env 16)
     = Inl (Panic ''send on closed channel'')"
  by (simp add: ex_producer_closed_def ex_producer_world_def world_of_def conn_defs)

subsection \<open>Panics\<close>

text \<open>
  C6.  The claim is that no exported operation panics in any order of calls.  After a
  successful \<open>StartConsumer\<close> the second of two \<open>EnableManualErrorHandling\<close> calls
  closes the signal channel again and panics; the second \<open>Setup\<close> of a consumer closes
  \<open>ready\<close> again and panics; \<open>ConsumerErrors\<close> on a new connector dereferences nil.
\<close>

theorem C6_repeated_calls_panic:
  "run [ex_start_consumer, CEnableManualErrorHandling, CEnableManualErrorHandling]
     (new_world ex_env 16) = Inl (Panic ''close of closed channel'') \<and>
   Setup ex_consumer = Inr (None, ex_consumer_set_up) \<and>
   Setup ex_consumer_set_up = Inl (Panic ''close of closed channel'') \<and>
   run [CConsumerErrors] (new_world ex_env 16)
     = Inl (Panic ''invalid memory address or nil pointer dereference'')"
  by (simp add: Setup_def ex_consumer_def ex_consumer_set_up_def conn_defs)

subsection \<open>Channels made by the Start methods\<close>

lemma new_world_made: "chans_made (new_world env limit)"
  by (simp add: chans_made_def new_world_def zero_Connector_def)

lemma exec_made:
  assumes "chans_made w" and "exec c w = Inr w'"
  shows "chans_made w'"
proof (cases c)
  case CEnableManualErrorHandling
  with assms show ?thesis
    by (auto simp add: chans_made_def split: option.splits
        dest!: EnableManualErrorHandling_returns)
next
  case (CStartConsumer ce ne b ts g off)
  with assms have "StartConsumer ce ne b ts g off w = Inr (None, w') \<or>
      (\<exists>e. StartConsumer ce ne b ts g off w = Inr (Some e, w'))"
    by (auto dest: returned_cases)
  then show ?thesis
  proof
    assume "StartConsumer ce ne b ts g off w = Inr (None, w')"
    from StartConsumer_success [OF this] ensure_signal_made [OF assms(1)] show ?thesis
      by (auto simp add: chans_made_def split: option.splits)
  next
    assume "\<exists>e. StartConsumer ce ne b ts g off w = Inr (Some e, w')"
    then obtain e where "StartConsumer ce ne b ts g off w = Inr (Some e, w')" ..
    from StartConsumer_error [OF this] ensure_signal_made [OF assms(1)] show ?thesis
      by (auto simp add: chans_made_def split: option.splits)
  qed
next
  case (CStartProducer ne b t)
  with assms have "StartProducer ne b t w = Inr (None, w') \<or>
      (\<exists>e. StartProducer ne b t w = Inr (Some e, w'))"
    by (auto dest: returned_cases)
  then show ?thesis
  proof
    assume "StartProducer ne b t w = Inr (None, w')"
    from StartProducer_success [OF this] ensure_signal_made [OF assms(1)] show ?thesis
      by (auto simp add: chans_made_def split: option.splits)
  next
    assume "\<exists>e. StartProducer ne b t w = Inr (Some e, w')"
    then obtain e where "StartProducer ne b t w = Inr (Some e, w')" ..
    from StartProducer_error [OF this] ensure_signal_made [OF assms(1)] show ?thesis
      by (auto simp add: chans_made_def split: option.splits)
  qed
next
  case CClose
  with assms show ?thesis by (auto simp add: chans_made_def split: option.splits dest!: Close_returns)
next
  case CCloseConsumer
  with assms show ?thesis by (auto simp add: chans_made_def split: option.splits dest!: CloseConsumer_returns)
next
  case CCloseProducer
  with assms show ?thesis by (auto simp add: chans_made_def split: option.splits dest!: CloseProducer_returns)
qed (use assms in \<open>auto simp add: chans_made_def SetAuth_def SetAuthFromEnv_world
      SetAuthAnon_def SetChannelLength_def split: option.splits dest!: inspected_returns\<close>)

lemma run_made:
  assumes "chans_made w" and "run cs w = Inr w'"
  shows "chans_made w'"
  using assms
proof (induction cs arbitrary: w)
  case Nil
  then show ?case by simp
next
  case (Cons c cs)
  then obtain w1 where e: "exec c w = Inr w1" and r: "run cs w1 = Inr w'"
    by (auto split: sum.splits)
  from Cons.prems(1) e have "chans_made w1" by (rule exec_made)
  with Cons.IH r show ?case by blast
qed

text \<open>
  C7.  In any world \<open>w\<close> reached from a new connector by a sequence of calls (sessions
  started and closed among them), a \<open>StartConsumer\<close> that succeeds leaves in
  \<open>consumerChannel\<close> a channel that did not exist in \<open>w\<close>, open, different from
  every channel the connector held, and leaves producer and producer channel untouched;
  likewise \<open>StartProducer\<close>.  And whenever the channel length is one the runtime can
  allocate, both Start methods succeed in \<open>w\<close> once the library connects.
\<close>

theorem C7_fresh_channel_per_start:
  assumes "run cs (new_world env limit) = Inr w"
  shows
   "(StartConsumer certErr connErr broker topics consumergroup offset w = Inr (None, w') \<longrightarrow>
       (\<exists>ch. consumerChannel (connector w') = Some ch \<and>
          length (chans w) \<le> ch \<and> ch < length (chans w') \<and> \<not> chan_closed (chans w' ! ch) \<and>
          consumerChannel (connector w) \<noteq> Some ch \<and> producerChannel (connector w) \<noteq> Some ch \<and>
          manualErrSignal (connector w') \<noteq> Some ch \<and>
          producer (connector w') = producer (connector w) \<and>
          producerChannel (connector w') = producerChannel (connector w))) \<and>
    (StartProducer connErr' broker' topic w = Inr (None, w'') \<longrightarrow>
       (\<exists>ch. producerChannel (connector w'') = Some ch \<and>
          length (chans w) \<le> ch \<and> ch < length (chans w'') \<and> \<not> chan_closed (chans w'' ! ch) \<and>
          producerChannel (connector w) \<noteq> Some ch \<and> consumerChannel (connector w) \<noteq> Some ch \<and>
          manualErrSignal (connector w'') \<noteq> Some ch \<and>
          consumer (connector w'') = consumer (connector w) \<and>
          consumerChannel (connector w'') = consumerChannel (connector w))) \<and>
    (unat (channelLength (connector w)) \<le> chan_limit w \<longrightarrow>
       (\<exists>v. StartConsumer None None broker topics consumergroup offset w = Inr (None, v)) \<and>
       (\<exists>v. StartProducer None broker' topic w = Inr (None, v)))"
proof -
  have m: "chans_made w" using new_world_made assms by (rule run_made)
  have m': "chans_made (ensure_signal w)" using m by (rule ensure_signal_made)
  have l: "length (chans w) \<le> length (chans (ensure_signal w))" by (rule ensure_signal_length)
  show ?thesis
  proof (intro conjI impI)
    assume "StartConsumer certErr connErr broker topics consumergroup offset w = Inr (None, w')"
    from StartConsumer_success [OF this] m m' l
    show "\<exists>ch. consumerChannel (connector w') = Some ch \<and>
          length (chans w) \<le> ch \<and> ch < length (chans w') \<and> \<not> chan_closed (chans w' ! ch) \<and>
          consumerChannel (connector w) \<noteq> Some ch \<and> producerChannel (connector w) \<noteq> Some ch \<and>
          manualErrSignal (connector w') \<noteq> Some ch \<and>
          producer (connector w') = producer (connector w) \<and>
          producerChannel (connector w') = producerChannel (connector w)"
      by (auto simp add: chans_made_def split: option.splits)
  next
    assume "StartProducer connErr' broker' topic w = Inr (None, w'')"
    from StartProducer_success [OF this] m m' l
    show "\<exists>ch. producerChannel (connector w'') = Some ch \<and>
          length (chans w) \<le> ch \<and> ch < length (chans w'') \<and> \<not> chan_closed (chans w'' ! ch) \<and>
          producerChannel (connector w) \<noteq> Some ch \<and> consumerChannel (connector w) \<noteq> Some ch \<and>
          manualErrSignal (connector w'') \<noteq> Some ch \<and>
          consumer (connector w'') = consumer (connector w) \<and>
          consumerChannel (connector w'') = consumerChannel (connector w)"
      by (auto simp add: chans_made_def split: option.splits)
  next
    assume "unat (channelLength (connector w)) \<le> chan_limit w"
    then show "\<exists>v. StartConsumer None None broker topics consumergroup offset w = Inr (None, v)"
      by (rule StartConsumer_succeeds)
  next
    assume "unat (channelLength (connector w)) \<le> chan_limit w"
    then show "\<exists>v. StartProducer None broker' topic w = Inr (None, v)"
      by (rule StartProducer_succeeds)
  qed
qed

theorem C7_fresh_channel_per_start_witness:
  "run [CSetChannelLength 8, ex_start_consumer, CCloseConsumer] (new_world ex_env 16)
     = Inr ex_restart_world \<and>
   sessions ex_restart_world = [Closed] \<and>
   consumerChannel (connector ex_restart_world) = Some 1 \<and>
   StartConsumer None None ''kafka01:9093,kafka02:9093'' [''flows''] ''group'' 0 ex_restart_world
     = Inr (None, ex_restarted) \<and>
   consumerChannel (connector ex_restarted) = Some 2 \<and>
   sessions ex_restarted = [Closed, Running] \<and>
   (\<exists>ch. consumerChannel (connector ex_restarted) = Some ch \<and>
      consumerChannel (connector ex_restart_world) \<noteq> Some ch)"
proof -
  have r: "run [CSetChannelLength 8, ex_start_consumer, CCloseConsumer] (new_world ex_env 16)
     = Inr ex_restart_world"
    by (simp add: ex_restart_world_def world_of_def conn_defs)
  have s: "StartConsumer None None ''kafka01:9093,kafka02:9093'' [''flows''] ''group'' 0
      ex_restart_world = Inr (None, ex_restarted)"
    by (simp add: ex_restarted_def ex_restart_world_def world_of_def conn_defs)
  have e: "sessions ex_restart_world = [Closed]"
    "consumerChannel (connector ex_restart_world) = Some 1"
    "consumerChannel (connector ex_restarted) = Some 2"
    "sessions ex_restarted = [Closed, Running]"
    by (simp_all add: ex_restarted_def ex_restart_world_def world_of_def conn_defs)
  have "\<exists>ch. consumerChannel (connector ex_restarted) = Some ch \<and>
      consumerChannel (connector ex_restart_world) \<noteq> Some ch"
    using C7_fresh_channel_per_start [OF r, where certErr = None and connErr = None
        and broker = "''kafka01:9093,kafka02:9093''" and topics = "[''flows'']"
        and consumergroup = "''group''" and offset = 0 and w' = ex_restarted] s
    by blast
  with r s e show ?thesis by simp
qed

lemma exec_channelLength:
  assumes "exec c w = Inr w'"
  shows "channelLength (connector w') = spec_channel_length [c] (channelLength (connector w))"
proof (cases c)
  case CEnableManualErrorHandling
  with assms show ?thesis by (auto dest!: EnableManualErrorHandling_returns)
next
  case (CStartConsumer ce ne b ts g off)
  with assms have "StartConsumer ce ne b ts g off w = Inr (None, w') \<or>
      (\<exists>e. StartConsumer ce ne b ts g off w = Inr (Some e, w'))"
    by (auto dest: returned_cases)
  with CStartConsumer show ?thesis
    by (auto dest!: StartConsumer_success StartConsumer_error)
next
  case (CStartProducer ne b t)
  with assms have "StartProducer ne b t w = Inr (None, w') \<or>
      (\<exists>e. StartProducer ne b t w = Inr (Some e, w'))"
    by (auto dest: returned_cases)
  with CStartProducer show ?thesis
    by (auto dest!: StartProducer_success StartProducer_error)
next
  case CClose
  with assms show ?thesis by (auto dest!: Close_returns)
next
  case CCloseConsumer
  with assms show ?thesis by (auto dest!: CloseConsumer_returns)
next
  case CCloseProducer
  with assms show ?thesis by (auto dest!: CloseProducer_returns)
qed (use assms in \<open>auto simp add: SetAuth_def SetAuthFromEnv_world
      SetAuthAnon_def SetChannelLength_def dest!: inspected_returns\<close>)

lemma spec_channel_length_Cons:
  "spec_channel_length (c # cs) l = spec_channel_length cs (spec_channel_length [c] l)"
  by (cases c) simp_all

lemma run_channelLength:
  assumes "run cs w = Inr w'"
  shows "channelLength (connector w') = spec_channel_length cs (channelLength (connector w))"
  using assms
proof (induction cs arbitrary: w)
  case Nil
  then show ?case by simp
next
  case (Cons c cs)
  then obtain w1 where e: "exec c w = Inr w1" and r: "run cs w1 = Inr w'"
    by (auto split: sum.splits)
  from Cons.IH [OF r] exec_channelLength [OF e] show ?case
    by (simp add: spec_channel_length_Cons [of c cs])
qed

text \<open>
  C8.  The channel a successful \<open>StartConsumer\<close> or \<open>StartProducer\<close> leaves in the
  connector was made with capacity \<open>channelLength\<close>; after any sequence of calls on a
  new connector \<open>channelLength\<close> is the value last passed to \<open>SetChannelLength\<close>, or 0
  when it was never called; and whenever the library connects and the runtime can allocate
  that capacity, each Start method does return with such a channel, open and of exactly
  that capacity.
\<close>

theorem C8_channel_capacity:
  "(StartConsumer certErr connErr broker topics consumergroup offset w = Inr (None, w') \<longrightarrow>
      (\<exists>ch. consumerChannel (connector w') = Some ch \<and> ch < length (chans w') \<and>
         chan_cap (chans w' ! ch) = unat (channelLength (connector w)))) \<and>
   (StartProducer connErr' broker' topic w = Inr (None, w'') \<longrightarrow>
      (\<exists>ch. producerChannel (connector w'') = Some ch \<and> ch < length (chans w'') \<and>
         chan_cap (chans w'' ! ch) = unat (channelLength (connector w)))) \<and>
   (run cs (new_world env limit) = Inr w \<longrightarrow>
      channelLength (connector w) = spec_channel_length cs 0) \<and>
   (unat (channelLength (connector w)) \<le> chan_limit w \<longrightarrow>
      (\<exists>v ch. StartConsumer None None broker topics consumergroup offset w = Inr (None, v) \<and>
         consumerChannel (connector v) = Some ch \<and> ch < length (chans v) \<and>
         chans v ! ch = \<lparr>chan_cap = unat (channelLength (connector w)), chan_closed = False\<rparr>) \<and>
      (\<exists>v ch. StartProducer None broker' topic w = Inr (None, v) \<and>
         producerChannel (connector v) = Some ch \<and> ch < length (chans v) \<and>
         chans v ! ch = \<lparr>chan_cap = unat (channelLength (connector w)), chan_closed = False\<rparr>))"
proof (intro conjI impI)
  assume "StartConsumer certErr connErr broker topics consumergroup offset w = Inr (None, w')"
  from StartConsumer_success [OF this]
  show "\<exists>ch. consumerChannel (connector w') = Some ch \<and> ch < length (chans w') \<and>
         chan_cap (chans w' ! ch) = unat (channelLength (connector w))"
    by auto
next
  assume "StartProducer connErr' broker' topic w = Inr (None, w'')"
  from StartProducer_success [OF this]
  show "\<exists>ch. producerChannel (connector w'') = Some ch \<and> ch < length (chans w'') \<and>
         chan_cap (chans w'' ! ch) = unat (channelLength (connector w))"
    by auto
next
  assume "run cs (new_world env limit) = Inr w"
  from run_channelLength [OF this] show "channelLength (connector w) = spec_channel_length cs 0"
    by (simp add: new_world_def zero_Connector_def)
next
  assume "unat (channelLength (connector w)) \<le> chan_limit w"
  then obtain v where v: "StartConsumer None None broker topics consumergroup offset w = Inr (None, v)"
    using StartConsumer_succeeds by blast
  from StartConsumer_success [OF v] v
  show "\<exists>v ch. StartConsumer None None broker topics consumergroup offset w = Inr (None, v) \<and>
         consumerChannel (connector v) = Some ch \<and> ch < length (chans v) \<and>
         chans v ! ch = \<lparr>chan_cap = unat (channelLength (connector w)), chan_closed = False\<rparr>"
    by auto
next
  assume "unat (channelLength (connector w)) \<le> chan_limit w"
  then obtain v where v: "StartProducer None broker' topic w = Inr (None, v)"
    using StartProducer_succeeds by blast
  from StartProducer_success [OF v] v
  show "\<exists>v ch. StartProducer None broker' topic w = Inr (None, v) \<and>
         producerChannel (connector v) = Some ch \<and> ch < length (chans v) \<and>
         chans v ! ch = \<lparr>chan_cap = unat (channelLength (connector w)), chan_closed = False\<rparr>"
    by auto
qed

theorem C8_channel_capacity_witness:
  "run [CSetChannelLength 8, ex_start_consumer, CCloseConsumer] (new_world ex_env 16)
     = Inr ex_restart_world \<and>
   spec_channel_length [CSetChannelLength 8, ex_start_consumer, CCloseConsumer] 0 = 8 \<and>
   channelLength (connector ex_restart_world) = 8 \<and>
   unat (channelLength (connector ex_restart_world)) \<le> chan_limit ex_restart_world \<and>
   StartConsumer None None ''kafka01:9093,kafka02:9093'' [''flows''] ''group'' 0 ex_restart_world
     = Inr (None, ex_restarted) \<and>
   consumerChannel (connector ex_restarted) = Some 2 \<and>
   chans ex_restarted ! 2 = \<lparr>chan_cap = 8, chan_closed = False\<rparr> \<and>
   StartProducer None ''kafka01:9093'' ''flows'' ex_restart_world
     = Inr (None, ex_producer_restarted) \<and>
   producerChannel (connector ex_producer_restarted) = Some 2 \<and>
   length (chans ex_producer_restarted) = 3 \<and>
   chans ex_producer_restarted ! 2 = \<lparr>chan_cap = 8, chan_closed = False\<rparr> \<and>
   (\<exists>ch. consumerChannel (connector ex_restarted) = Some ch \<and> ch < length (chans ex_restarted) \<and>
      chan_cap (chans ex_restarted ! ch) = 8) \<and>
   (\<exists>ch. producerChannel (connector ex_producer_restarted) = Some ch \<and>
      ch < length (chans ex_producer_restarted) \<and>
      chan_cap (chans ex_producer_restarted ! ch) = 8)"
proof -
  have r: "run [CSetChannelLength 8, ex_start_consumer, CCloseConsumer] (new_world ex_env 16)
     = Inr ex_restart_world"
    by (simp add: ex_restart_world_def world_of_def conn_defs)
  have s: "StartConsumer None None ''kafka01:9093,kafka02:9093'' [''flows''] ''group'' 0
      ex_restart_world = Inr (None, ex_restarted)"
    by (simp add: ex_restarted_def ex_restart_world_def world_of_def conn_defs)
  have q: "StartProducer None ''kafka01:9093'' ''flows'' ex_restart_world
      = Inr (None, ex_producer_restarted)"
    by (simp add: ex_producer_restarted_def ex_restart_world_def world_of_def conn_defs)
  have c: "spec_channel_length [CSetChannelLength 8, ex_start_consumer, CCloseConsumer] 0 = 8"
    by (simp add: ex_start_consumer_def)
  have e: "consumerChannel (connector ex_restarted) = Some 2"
    "chans ex_restarted ! 2 = \<lparr>chan_cap = 8, chan_closed = False\<rparr>"
    "producerChannel (connector ex_producer_restarted) = Some 2"
    "length (chans ex_producer_restarted) = 3"
    "chans ex_producer_restarted ! 2 = \<lparr>chan_cap = 8, chan_closed = False\<rparr>"
    "unat (channelLength (connector ex_restart_world)) \<le> chan_limit ex_restart_world"
    by (simp_all add: ex_restarted_def ex_producer_restarted_def ex_restart_world_def
        world_of_def conn_defs)
  note t = C8_channel_capacity [where certErr = None and connErr = None and connErr' = None
        and broker = "''kafka01:9093,kafka02:9093''" and topics = "[''flows'']"
        and consumergroup = "''group''" and offset = 0 and w = ex_restart_world
        and broker' = "''kafka01:9093''" and topic = "''flows''"
        and w' = ex_restarted and w'' = ex_producer_restarted
        and cs = "[CSetChannelLength 8, ex_start_consumer, CCloseConsumer]"
        and env = ex_env and limit = 16]
  from t r c have l: "channelLength (connector ex_restart_world) = 8" by simp
  from t s l have k: "\<exists>ch. consumerChannel (connector ex_restarted) = Some ch \<and>
      ch < length (chans ex_restarted) \<and> chan_cap (chans ex_restarted ! ch) = 8"
    by simp
  from t q l have p: "\<exists>ch. producerChannel (connector ex_producer_restarted) = Some ch \<and>
      ch < length (chans ex_producer_restarted) \<and>
      chan_cap (chans ex_producer_restarted ! ch) = 8"
    by simp
  from r s q c l e k p show ?thesis by simp
qed

end
